theory Spec2Isabelle
  imports Complex_Main "HOL-Library.Word" "HOL-Library.Log_Nat" "HOL-Library.List_Lexorder"
    "HOL-Library.AList"
begin

section \<open>Arbitrary-precision integers (math/big) as used by the sources\<close>

text \<open>
  A \<open>*big.Int\<close> is an unbounded integer, modelled as \<open>int\<close>. Go panics are values of
  type \<open>panic\<close>; a function that can panic returns \<open>panic + 'a\<close>.
\<close>

datatype panic = DivisionByZero | InvalidArgument string

text \<open>
  \<open>z.Div(x, y)\<close> is Euclidean division (the remainder is never negative) and panics
  for \<open>y = 0\<close>.
\<close>

definition big_Div :: "int \<Rightarrow> int \<Rightarrow> panic + int" where
  "big_Div x y =
     (if y = 0 then Inl DivisionByZero
      else if 0 < y then Inr (x div y)
      else Inr (- (x div (- y))))"

text \<open>
  \<open>z.Exp(x, y, m)\<close> with \<open>m\<close> nil or zero, the only way the sources call it: \<open>x ** y\<close>,
  and 1 when \<open>y \<le> 0\<close>.
\<close>

definition big_Exp :: "int \<Rightarrow> int \<Rightarrow> int" where
  "big_Exp x y = (if y \<le> 0 then 1 else x ^ nat y)"

section \<open>common/big.go\<close>


text \<open>
  The package-level variables \<open>Big0 \<dots> Big2e64\<close>. They are pointers to mutable
  integers, so their current contents are a state; \<open>common_init\<close> is the state the
  package initialisation leaves.
\<close>

record common_vars =
  Big0 :: int
  Big1 :: int
  Big2 :: int
  Big3 :: int
  Big8 :: int
  Big32 :: int
  Big256 :: int
  Big257 :: int
  Big2e256 :: int
  Big2e64 :: int

definition common_init :: common_vars where
  "common_init =
     \<lparr> Big0 = 0, Big1 = 1, Big2 = 2, Big3 = 3, Big8 = 8, Big32 = 32,
       Big256 = 256, Big257 = 257,
       Big2e256 = big_Exp 2 256, Big2e64 = big_Exp 2 64 \<rparr>"


text \<open>
  Modelled from the spec: \<open>mathutil.BinaryLog\<close> (modernc.org/mathutil, not under src/).
  It returns the characteristic \<open>c = BitLen n - 1\<close> and a mantissa \<open>m\<close> of
  \<open>mantissaBits\<close> bits with \<open>log2 n\<close> approximated by \<open>c + m / 2 ^ mantissaBits\<close>, and
  panics for \<open>n \<le> 0\<close> or \<open>mantissaBits < 0\<close>. The mantissa is taken to be the first
  \<open>mantissaBits\<close> binary digits of \<open>log2 (n / 2 ^ c)\<close>: squaring a number of
  \<open>[1, 2)\<close> doubles its logarithm, and the next digit is 1 exactly when the square
  reaches 2.
\<close>

fun log_digits :: "rat \<Rightarrow> nat \<Rightarrow> int" where
  "log_digits x 0 = 0"
| "log_digits x (Suc k) =
     (let y = x * x
      in if 2 \<le> y then 2 ^ k + log_digits (y / 2) k else log_digits y k)"

definition BinaryLog :: "int \<Rightarrow> int \<Rightarrow> panic + (int \<times> int)" where
  "BinaryLog n mantissaBits =
     (if n \<le> 0 \<or> mantissaBits < 0 then Inl (InvalidArgument ''invalid argument of BinaryLog'')
      else let c = bitlen n - 1
           in Inr (c, log_digits (of_int n / 2 ^ nat c) (nat mantissaBits)))"

definition BitsToBigBits :: "int \<Rightarrow> panic + int" where
  "BitsToBigBits original =
     (case BinaryLog original 64 of
        Inl e \<Rightarrow> Inl e
      | Inr (c, m) \<Rightarrow> Inr (c * big_Exp 2 64 + m))"

definition EntropyBigBitsToDifficultyBits :: "common_vars \<Rightarrow> int \<Rightarrow> panic + int" where
  "EntropyBigBitsToDifficultyBits g bigBits =
     (case big_Div bigBits (Big2e64 g) of
        Inl e \<Rightarrow> Inl e
      | Inr bits \<Rightarrow> big_Div (Big2e256 g) (big_Exp 2 bits))"



text \<open>\<open>x.Cmp(y)\<close>: -1, 0 or 1.\<close>

definition big_Cmp :: "int \<Rightarrow> int \<Rightarrow> int" where
  "big_Cmp x y = (if x < y then - 1 else if x = y then 0 else 1)"

subsection \<open>SanityCheck\<close>

datatype log_entry = LogError string | LogFatal string

datatype event = Log log_entry | QuitSend

text \<open>
  The local values \<open>big0 \<dots> big2e64\<close> that \<open>SanityCheck\<close> builds before it starts
  the goroutine. Nothing else can reach them.
\<close>

definition sanity_locals :: common_vars where
  "sanity_locals =
     \<lparr> Big0 = 0, Big1 = 1, Big2 = 2, Big3 = 3, Big8 = 8, Big32 = 32,
       Big256 = 256, Big257 = 257,
       Big2e256 = big_Exp 2 256, Big2e64 = big_Exp 2 64 \<rparr>"

text \<open>
  The condition of the \<open>if\<close> in the loop, on the locals \<open>l\<close> and the current shared
  variables \<open>g\<close>. The last two disjuncts compare the locals with freshly built powers,
  not with \<open>Big2e256\<close> and \<open>Big2e64\<close>.
\<close>

definition values_mutated :: "common_vars \<Rightarrow> common_vars \<Rightarrow> bool" where
  "values_mutated l g =
     (big_Cmp (Big0 l) (Big0 g) \<noteq> 0 \<or>
      big_Cmp (Big1 l) (Big1 g) \<noteq> 0 \<or>
      big_Cmp (Big2 l) (Big2 g) \<noteq> 0 \<or>
      big_Cmp (Big3 l) (Big3 g) \<noteq> 0 \<or>
      big_Cmp (Big8 l) (Big8 g) \<noteq> 0 \<or>
      big_Cmp (Big32 l) (Big32 g) \<noteq> 0 \<or>
      big_Cmp (Big256 l) (Big256 g) \<noteq> 0 \<or>
      big_Cmp (Big257 l) (Big257 g) \<noteq> 0 \<or>
      big_Cmp (Big2e256 l) (big_Exp 2 256) \<noteq> 0 \<or>
      big_Cmp (Big2e64 l) (big_Exp 2 64) \<noteq> 0)"

text \<open>
  The goroutine is \<open>for { sleep; if mutated { log; quitCh <- struct{}{} } }\<close>: it has no
  \<open>break\<close> and no \<open>return\<close>. A run is described by what the environment does: the list
  holds the shared variables as they are at each wake-up (a finite prefix of the run), and
  \<open>recv\<close> is the number of values the other side of \<open>quitCh\<close> will take. A send that
  nobody takes blocks the goroutine for good. The result is the events of the prefix,
  in order, and the state the goroutine is in after it.
\<close>

datatype monitor_state = Sleeping | BlockedOnSend

fun SanityCheck_loop :: "common_vars \<Rightarrow> nat \<Rightarrow> common_vars list \<Rightarrow> event list \<times> monitor_state" where
  "SanityCheck_loop l recv [] = ([], Sleeping)"
| "SanityCheck_loop l recv (g # gs) =
     (if values_mutated l g then
        (case recv of
           0 \<Rightarrow> ([Log (LogError ''A common value has mutated, exiting now'')], BlockedOnSend)
         | Suc r \<Rightarrow>
             (case SanityCheck_loop l r gs of
                (evs, st) \<Rightarrow>
                  (Log (LogError ''A common value has mutated, exiting now'') # QuitSend # evs, st)))
      else SanityCheck_loop l recv gs)"

definition SanityCheck :: "nat \<Rightarrow> common_vars list \<Rightarrow> event list \<times> monitor_state" where
  "SanityCheck recv gs = SanityCheck_loop sanity_locals recv gs"

text \<open>The number of completed writes to the quit channel in a trace.\<close>

definition quit_writes :: "event list \<Rightarrow> nat" where
  "quit_writes evs = length (filter (\<lambda>e. e = QuitSend) evs)"

section \<open>Bytes, keys and the key-value store\<close>

type_synonym byte = "8 word"
type_synonym bytes = "byte list"

text \<open>\<open>common.Hash\<close> is an array of \<open>HashLength = 32\<close> bytes; \<open>common.Hash{}\<close> is all zero.\<close>

type_synonym Hash = bytes

definition HashLength :: nat where
  "HashLength = 32"

definition zeroHash :: Hash where
  "zeroHash = replicate HashLength 0"

text \<open>\<open>bytes.Compare\<close>: lexicographic on unsigned bytes, a proper prefix is smaller.\<close>

definition bytes_Compare :: "bytes \<Rightarrow> bytes \<Rightarrow> int" where
  "bytes_Compare a b = (if a < b then - 1 else if a = b then 0 else 1)"

text \<open>
  \<open>x.Bytes()\<close>: the absolute value as big-endian bytes without leading zeros; the
  empty slice for 0. \<open>z.SetBytes(buf)\<close>: the unsigned big-endian value of \<open>buf\<close>.
  \<open>x.Uint64()\<close>: the low 64 bits (the value itself when it fits).
  \<open>z.SetUint64(n)\<close>: the value of \<open>n\<close>.
\<close>

fun nat_Bytes :: "nat \<Rightarrow> bytes" where
  "nat_Bytes n = (if n = 0 then [] else nat_Bytes (n div 256) @ [of_nat n])"

declare nat_Bytes.simps [simp del]

definition big_Bytes :: "int \<Rightarrow> bytes" where
  "big_Bytes x = nat_Bytes (nat \<bar>x\<bar>)"

definition big_SetBytes :: "bytes \<Rightarrow> int" where
  "big_SetBytes buf = int (foldl (\<lambda>acc b. acc * 256 + unat b) 0 buf)"

definition big_Uint64 :: "int \<Rightarrow> 64 word" where
  "big_Uint64 x = word_of_int \<bar>x\<bar>"

definition big_SetUint64 :: "64 word \<Rightarrow> int" where
  "big_SetUint64 n = uint n"

text \<open>
  \<open>binary.BigEndian\<close>: the \<open>n\<close> low bytes of \<open>v\<close>, most significant first.
\<close>

fun PutUint :: "nat \<Rightarrow> nat \<Rightarrow> bytes" where
  "PutUint 0 v = []"
| "PutUint (Suc n) v = of_nat (v div 256 ^ n) # PutUint n v"

text \<open>
  The key layout of package rawdb (schema.go) is not under src/; what the layout leaves
  open is taken as a parameter: the two namespace prefixes and the number of bytes the
  bit index of a bloom key takes.
\<close>

record schema =
  txLookupPrefix :: bytes
  bloomBitsPrefix :: bytes
  bloomBitBytes :: nat

text \<open>
  Modelled from the spec: \<open>txLookupKey\<close> (schema.go, not under src/): the namespace
  prefix followed by the hash.
\<close>

definition txLookupKey :: "schema \<Rightarrow> Hash \<Rightarrow> bytes" where
  "txLookupKey sc hash = txLookupPrefix sc @ hash"

text \<open>
  Modelled from the spec: \<open>bloomBitsKey\<close> and \<open>BloomBitsKeyLength\<close> (schema.go, not
  under src/): the namespace prefix, the bit index big-endian, the section number
  big-endian (a \<open>uint64\<close>, 8 bytes) and the head hash; the length of such a key is fixed.
\<close>

definition bloomBitsKey :: "schema \<Rightarrow> 64 word \<Rightarrow> 64 word \<Rightarrow> Hash \<Rightarrow> bytes" where
  "bloomBitsKey sc bit' section head =
     bloomBitsPrefix sc @ PutUint (bloomBitBytes sc) (unat bit') @ PutUint 8 (unat section) @ head"

definition BloomBitsKeyLength :: "schema \<Rightarrow> nat" where
  "BloomBitsKeyLength sc = length (bloomBitsPrefix sc) + bloomBitBytes sc + 8 + HashLength"

text \<open>
  The store (\<open>ethdb\<close>, an external collaborator): its contents as an association list,
  and what makes its operations fail. \<open>put_err k\<close> and \<open>delete_err k\<close> say that
  \<open>Put\<close> and \<open>Delete\<close> on key \<open>k\<close> return an error (and change nothing);
  \<open>iter_err = Some n\<close> says that an iterator breaks down once it has delivered \<open>n\<close>
  keys: the next \<open>Next()\<close> returns false and \<open>Error()\<close> is set.
\<close>

record kvdb =
  kv :: "(bytes \<times> bytes) list"
  put_err :: "bytes \<Rightarrow> bool"
  delete_err :: "bytes \<Rightarrow> bool"
  iter_err :: "nat option"

text \<open>\<open>data, _ := db.Get(key)\<close>: the value, or nil (the error is dropped) when there is none.\<close>

definition db_Get :: "kvdb \<Rightarrow> bytes \<Rightarrow> bytes" where
  "db_Get db key = (case map_of (kv db) key of None \<Rightarrow> [] | Some v \<Rightarrow> v)"

definition db_Put :: "kvdb \<Rightarrow> bytes \<Rightarrow> bytes \<Rightarrow> string + kvdb" where
  "db_Put db key val =
     (if put_err db key then Inl ''put failed''
      else Inr (db\<lparr>kv := AList.update key val (kv db)\<rparr>))"

definition db_Delete :: "kvdb \<Rightarrow> bytes \<Rightarrow> string + kvdb" where
  "db_Delete db key =
     (if delete_err db key then Inl ''delete failed''
      else Inr (db\<lparr>kv := AList.delete key (kv db)\<rparr>))"

text \<open>
  \<open>db.NewIterator(nil, start)\<close>: the keys of the store from \<open>start\<close> on, in ascending
  bytewise order, as they are when the iterator is made. \<open>it_keys\<close> are the keys the
  iterator delivers, \<open>it_broken\<close> says that \<open>Error()\<close> is set once they are used up.
\<close>

record iterator =
  it_keys :: "bytes list"
  it_broken :: bool

definition db_NewIterator :: "kvdb \<Rightarrow> bytes \<Rightarrow> iterator" where
  "db_NewIterator db start =
     (let ks = sort (filter (\<lambda>k. start \<le> k) (remdups (map fst (kv db))))
      in case iter_err db of
           None \<Rightarrow> \<lparr> it_keys = ks, it_broken = False \<rparr>
         | Some n \<Rightarrow> \<lparr> it_keys = take n ks, it_broken = (n \<le> length ks) \<rparr>)"

section \<open>core/rawdb: the transaction and bloom-bits index\<close>

text \<open>
  The other accessors of package rawdb and the types they return are not under src/;
  they are parameters. A transaction is a value of type \<open>'tx\<close> with its \<open>Hash()\<close>;
  \<open>ReadWorkObject\<close> gives the transactions of the body of the block, if the block is
  there; \<open>ReadCanonicalHash\<close> gives the zero hash for a number without a canonical
  block. \<open>legacy_Unmarshal\<close> stands for \<open>proto.Unmarshal\<close> into a
  \<open>ProtoLegacyTxLookupEntry\<close> followed by \<open>ProtoDecode\<close>: an error, or the entry.
\<close>

record LegacyTxLookupEntry =
  BlockIndex :: "64 word"

record 'tx reader =
  ReadHeaderNumber :: "kvdb \<Rightarrow> Hash \<Rightarrow> 64 word option"
  ReadCanonicalHash :: "kvdb \<Rightarrow> 64 word \<Rightarrow> Hash"
  ReadWorkObject :: "kvdb \<Rightarrow> 64 word \<Rightarrow> Hash \<Rightarrow> 'tx list option"
  tx_Hash :: "'tx \<Rightarrow> Hash"
  legacy_Unmarshal :: "bytes \<Rightarrow> string + LegacyTxLookupEntry"

text \<open>
  Modelled from the spec: \<open>common.BytesToHash\<close> (common/types.go, not under src/). It
  is only applied to exactly \<open>HashLength\<close> bytes, which are the hash.
\<close>

definition BytesToHash :: "bytes \<Rightarrow> Hash" where
  "BytesToHash b = b"

text \<open>
  A function that reads returns its result with the entries it has logged. A function
  that writes returns the new store, or \<open>Inl msg\<close> when it has logged \<open>msg\<close> at fatal
  severity, which ends the process.
\<close>

definition ReadTxLookupEntry ::
  "schema \<Rightarrow> 'tx reader \<Rightarrow> kvdb \<Rightarrow> Hash \<Rightarrow> 64 word option \<times> log_entry list" where
  "ReadTxLookupEntry sc rd db hash =
     (let data = db_Get db (txLookupKey sc hash)
      in if length data = 0 then (None, [])
         else if length data < HashLength then (Some (big_Uint64 (big_SetBytes data)), [])
         else if length data = HashLength then (ReadHeaderNumber rd db (BytesToHash data), [])
         else (case legacy_Unmarshal rd data of
                 Inl err \<Rightarrow> (None, [LogError ''Invalid transaction lookup entry protobuf''])
               | Inr entry \<Rightarrow> (Some (BlockIndex entry), [])))"

definition writeTxLookupEntry :: "schema \<Rightarrow> kvdb \<Rightarrow> Hash \<Rightarrow> bytes \<Rightarrow> string + kvdb" where
  "writeTxLookupEntry sc db hash numberBytes =
     (case db_Put db (txLookupKey sc hash) numberBytes of
        Inl err \<Rightarrow> Inl ''Failed to store transaction lookup entry''
      | Inr db' \<Rightarrow> Inr db')"

fun writeTxLookupEntries_loop :: "schema \<Rightarrow> kvdb \<Rightarrow> bytes \<Rightarrow> Hash list \<Rightarrow> string + kvdb" where
  "writeTxLookupEntries_loop sc db numberBytes [] = Inr db"
| "writeTxLookupEntries_loop sc db numberBytes (hash # hashes) =
     (case writeTxLookupEntry sc db hash numberBytes of
        Inl f \<Rightarrow> Inl f
      | Inr db' \<Rightarrow> writeTxLookupEntries_loop sc db' numberBytes hashes)"

definition WriteTxLookupEntries :: "schema \<Rightarrow> kvdb \<Rightarrow> 64 word \<Rightarrow> Hash list \<Rightarrow> string + kvdb" where
  "WriteTxLookupEntries sc db number hashes =
     (let numberBytes = big_Bytes (big_SetUint64 number)
      in writeTxLookupEntries_loop sc db numberBytes hashes)"

definition DeleteTxLookupEntry :: "schema \<Rightarrow> kvdb \<Rightarrow> Hash \<Rightarrow> string + kvdb" where
  "DeleteTxLookupEntry sc db hash =
     (case db_Delete db (txLookupKey sc hash) of
        Inl err \<Rightarrow> Inl ''Failed to delete transaction lookup entry''
      | Inr db' \<Rightarrow> Inr db')"

fun DeleteTxLookupEntries :: "schema \<Rightarrow> kvdb \<Rightarrow> Hash list \<Rightarrow> string + kvdb" where
  "DeleteTxLookupEntries sc db [] = Inr db"
| "DeleteTxLookupEntries sc db (hash # hashes) =
     (case DeleteTxLookupEntry sc db hash of
        Inl f \<Rightarrow> Inl f
      | Inr db' \<Rightarrow> DeleteTxLookupEntries sc db' hashes)"

text \<open>The \<open>for txIndex, tx := range\<close> scan of \<open>ReadTransaction\<close>, from index \<open>i\<close> on.\<close>

fun find_tx :: "('tx \<Rightarrow> Hash) \<Rightarrow> Hash \<Rightarrow> nat \<Rightarrow> 'tx list \<Rightarrow> ('tx \<times> nat) option" where
  "find_tx h hash i [] = None"
| "find_tx h hash i (tx # txs) = (if h tx = hash then Some (tx, i) else find_tx h hash (Suc i) txs)"

definition ReadTransaction ::
  "schema \<Rightarrow> 'tx reader \<Rightarrow> kvdb \<Rightarrow> Hash \<Rightarrow> ('tx option \<times> Hash \<times> 64 word \<times> 64 word) \<times> log_entry list" where
  "ReadTransaction sc rd db hash =
     (case ReadTxLookupEntry sc rd db hash of
        (None, lg) \<Rightarrow> ((None, zeroHash, 0, 0), lg)
      | (Some blockNumber, lg) \<Rightarrow>
          (let blockHash = ReadCanonicalHash rd db blockNumber
           in if blockHash = zeroHash then ((None, zeroHash, 0, 0), lg)
              else (case ReadWorkObject rd db blockNumber blockHash of
                      None \<Rightarrow> ((None, zeroHash, 0, 0), lg @ [LogError ''Transaction referenced missing''])
                    | Some txs \<Rightarrow>
                        (case find_tx (tx_Hash rd) hash 0 txs of
                           Some (tx, txIndex) \<Rightarrow> ((Some tx, blockHash, blockNumber, of_nat txIndex), lg)
                         | None \<Rightarrow> ((None, zeroHash, 0, 0), lg @ [LogError ''Transaction not found''])))))"

definition ReadBloomBits :: "schema \<Rightarrow> kvdb \<Rightarrow> 64 word \<Rightarrow> 64 word \<Rightarrow> Hash \<Rightarrow> bytes option" where
  "ReadBloomBits sc db bit' section head = map_of (kv db) (bloomBitsKey sc bit' section head)"

definition WriteBloomBits :: "schema \<Rightarrow> kvdb \<Rightarrow> 64 word \<Rightarrow> 64 word \<Rightarrow> Hash \<Rightarrow> bytes \<Rightarrow> string + kvdb" where
  "WriteBloomBits sc db bit' section head bits =
     (case db_Put db (bloomBitsKey sc bit' section head) bits of
        Inl err \<Rightarrow> Inl ''Failed to store bloom bits''
      | Inr db' \<Rightarrow> Inr db')"

text \<open>
  The loop of \<open>DeleteBloombits\<close> over the keys the iterator delivers. The result of
  \<open>db.Delete\<close> is dropped: after a failed delete the loop goes on with the store as it
  was. The flag says that the loop ended because \<open>it.Next()\<close> returned false, not by
  \<open>break\<close>.
\<close>

fun DeleteBloombits_loop :: "schema \<Rightarrow> bytes \<Rightarrow> kvdb \<Rightarrow> bytes list \<Rightarrow> kvdb \<times> bool" where
  "DeleteBloombits_loop sc end db [] = (db, True)"
| "DeleteBloombits_loop sc end db (key # keys) =
     (if bytes_Compare key end \<ge> 0 then (db, False)
      else if length key \<noteq> BloomBitsKeyLength sc then DeleteBloombits_loop sc end db keys
      else (case db_Delete db key of
              Inl err \<Rightarrow> DeleteBloombits_loop sc end db keys
            | Inr db' \<Rightarrow> DeleteBloombits_loop sc end db' keys))"

definition DeleteBloombits :: "schema \<Rightarrow> kvdb \<Rightarrow> 64 word \<Rightarrow> 64 word \<Rightarrow> 64 word \<Rightarrow> string + kvdb" where
  "DeleteBloombits sc db bit' from to =
     (let start = bloomBitsKey sc bit' from zeroHash;
          end = bloomBitsKey sc bit' to zeroHash;
          it = db_NewIterator db start
      in case DeleteBloombits_loop sc end db (it_keys it) of
           (db', used_up) \<Rightarrow>
             if used_up \<and> it_broken it then Inl ''Failed to delete bloom bits'' else Inr db')"

section \<open>Test fixtures\<close>

text \<open>
  A key layout with one-byte prefixes and a two-byte bit index, collaborators that find
  nothing, and a store that never fails.
\<close>

definition test_schema :: schema where
  "test_schema = \<lparr> txLookupPrefix = [0x6C], bloomBitsPrefix = [0x42], bloomBitBytes = 2 \<rparr>"

definition test_reader :: "nat reader" where
  "test_reader =
     \<lparr> ReadHeaderNumber = (\<lambda>db h. None),
       ReadCanonicalHash = (\<lambda>db n. zeroHash),
       ReadWorkObject = (\<lambda>db n h. None),
       tx_Hash = (\<lambda>tx. zeroHash),
       legacy_Unmarshal = (\<lambda>b. Inl ''proto: cannot parse invalid wire-format data'') \<rparr>"

definition store_of :: "(bytes \<times> bytes) list \<Rightarrow> kvdb" where
  "store_of al = \<lparr> kv = al, put_err = (\<lambda>k. False), delete_err = (\<lambda>k. False), iter_err = None \<rparr>"

text \<open>
  Bloom keys for bit 0 at sections 1 to 5, and between them a key of another length
  that sorts between sections 2 and 3.
\<close>

definition foreign_key :: bytes where
  "foreign_key = [0x42, 0, 0, 0, 0, 0, 0, 0, 0, 0, 3]"

definition bloom_entries :: "(bytes \<times> bytes) list" where
  "bloom_entries =
     [(bloomBitsKey test_schema 0 5 zeroHash, [5]),
      (bloomBitsKey test_schema 0 1 zeroHash, [1]),
      (foreign_key, [9]),
      (bloomBitsKey test_schema 0 3 zeroHash, [3]),
      (bloomBitsKey test_schema 0 2 zeroHash, [2]),
      (bloomBitsKey test_schema 0 4 zeroHash, [4])]"

section \<open>Properties of the big-bits arithmetic\<close>


lemma log_digits_one: "log_digits 1 k = 0"
  by (induction k) simp_all


lemma BinaryLog_256: "BinaryLog 256 64 = Inr (8, 0)"
proof -
  have "bitlen 256 = 9" by code_simp
  then show ?thesis by (simp add: BinaryLog_def Let_def log_digits_one)
qed

lemma big_Exp_2_64: "big_Exp 2 64 = 2 ^ 64"
  by (simp add: big_Exp_def)




text \<open>
  C6. \<open>EntropyBigBitsToDifficultyBits\<close> applied to \<open>BitsToBigBits 256\<close> returns exactly
  \<open>2^248\<close>: the logarithm of 256 is 8 with zero mantissa, dividing by \<open>2^64\<close> gives the
  exponent 8 back, and \<open>2^256 / 2^8 = 2^248\<close>.
\<close>

theorem EntropyBigBitsToDifficultyBits_256:
  "BitsToBigBits 256 = Inr (8 * 2 ^ 64)
   \<and> EntropyBigBitsToDifficultyBits common_init (8 * 2 ^ 64) = Inr (2 ^ 248)"
proof -
  have a: "BitsToBigBits 256 = Inr (8 * 2 ^ 64)"
    by (simp add: BitsToBigBits_def BinaryLog_256 big_Exp_2_64)
  have d: "big_Div (8 * 2 ^ 64) (2 ^ 64) = Inr 8"
    by (simp add: big_Div_def)
  have e: "big_Div (2 ^ 256) (2 ^ 8) = Inr (2 ^ 248)"
    by (simp add: big_Div_def)
  have b: "EntropyBigBitsToDifficultyBits common_init (8 * 2 ^ 64) = Inr (2 ^ 248)"
    using d e by (simp add: EntropyBigBitsToDifficultyBits_def common_init_def big_Exp_def)
  from a b show ?thesis by simp
qed



section \<open>Properties of the integrity monitor\<close>

lemma not_mutated_canonical:
  assumes "Big0 g = 0" "Big1 g = 1" "Big2 g = 2" "Big3 g = 3" "Big8 g = 8" "Big32 g = 32"
    "Big256 g = 256" "Big257 g = 257"
  shows "\<not> values_mutated sanity_locals g"
  using assms by (simp add: values_mutated_def sanity_locals_def big_Cmp_def)

lemma SanityCheck_loop_quiet:
  assumes "\<forall>g \<in> set gs. \<not> values_mutated l g"
  shows "SanityCheck_loop l recv gs = ([], Sleeping)"
  using assms by (induction gs) simp_all







text \<open>
  C10. As long as every shared constant has its canonical value at each check cycle,
  the monitor logs nothing and never writes to the quit channel.
\<close>

theorem SanityCheck_no_false_abort:
  assumes "\<forall>g \<in> set gs. Big0 g = 0 \<and> Big1 g = 1 \<and> Big2 g = 2 \<and> Big3 g = 3 \<and> Big8 g = 8
             \<and> Big32 g = 32 \<and> Big256 g = 256 \<and> Big257 g = 257
             \<and> Big2e256 g = 2 ^ 256 \<and> Big2e64 g = 2 ^ 64"
  shows "SanityCheck recv gs = ([], Sleeping) \<and> quit_writes (fst (SanityCheck recv gs)) = 0"
proof -
  have "\<forall>g \<in> set gs. \<not> values_mutated sanity_locals g"
  proof
    fix g assume "g \<in> set gs"
    with assms have "Big0 g = 0" "Big1 g = 1" "Big2 g = 2" "Big3 g = 3" "Big8 g = 8"
      "Big32 g = 32" "Big256 g = 256" "Big257 g = 257"
      by blast+
    then show "\<not> values_mutated sanity_locals g" by (rule not_mutated_canonical)
  qed
  then have "SanityCheck recv gs = ([], Sleeping)"
    unfolding SanityCheck_def by (rule SanityCheck_loop_quiet)
  then show ?thesis by (simp add: quit_writes_def)
qed

theorem SanityCheck_no_false_abort_witness:
  "Big0 common_init = 0 \<and> Big1 common_init = 1 \<and> Big2 common_init = 2 \<and> Big3 common_init = 3
   \<and> Big8 common_init = 8 \<and> Big32 common_init = 32 \<and> Big256 common_init = 256
   \<and> Big257 common_init = 257 \<and> Big2e256 common_init = 2 ^ 256 \<and> Big2e64 common_init = 2 ^ 64
   \<and> SanityCheck 1 [common_init, common_init] = ([], Sleeping)
   \<and> quit_writes (fst (SanityCheck 1 [common_init, common_init])) = 0"
proof -
  have c: "Big0 common_init = 0 \<and> Big1 common_init = 1 \<and> Big2 common_init = 2 \<and> Big3 common_init = 3
   \<and> Big8 common_init = 8 \<and> Big32 common_init = 32 \<and> Big256 common_init = 256
   \<and> Big257 common_init = 257 \<and> Big2e256 common_init = 2 ^ 256 \<and> Big2e64 common_init = 2 ^ 64"
    by (simp add: common_init_def big_Exp_def)
  then have "\<forall>g \<in> set [common_init, common_init]. Big0 g = 0 \<and> Big1 g = 1 \<and> Big2 g = 2
             \<and> Big3 g = 3 \<and> Big8 g = 8 \<and> Big32 g = 32 \<and> Big256 g = 256 \<and> Big257 g = 257
             \<and> Big2e256 g = 2 ^ 256 \<and> Big2e64 g = 2 ^ 64"
    by simp
  from SanityCheck_no_false_abort [OF this, of 1] c show ?thesis by blast
qed

end
